theory Spec2Isabelle
  imports Complex_Main
begin

section \<open>The Flatten-T Swish activation of model\_ftswish.py\<close>

text \<open>
  The script defines one function of its own, \<open>ftswish\<close>, from three elementwise
  operations of the Keras backend. The backend operations are taken with their
  mathematical meaning on real numbers: \<open>K.relu x\<close> is \<open>max x 0\<close>, \<open>K.sigmoid x\<close> is
  \<open>1 / (1 + exp (- x))\<close> and \<open>K.maximum\<close> is the binary maximum. Rounding of 32-bit
  floats is outside this model.
\<close>

subsection \<open>Model configuration (lines 16 to 22)\<close>

definition img_width :: nat where
  "img_width = 32"

definition img_height :: nat where
  "img_height = 32"

definition no_classes :: nat where
  "no_classes = 10"

subsection \<open>Raw data and preprocessing (lines 24 to 45)\<close>

text \<open>
  An array is its shape and its entries in row-major order. \<open>reshape\<close> keeps the
  entries and raises \<open>ValueError\<close> when the new shape has another size;
  \<open>x.shape[0]\<close> raises \<open>IndexError\<close> on an array without dimensions.
\<close>

datatype error = ValueError | IndexError

record 'a tensor =
  shape :: "nat list"
  entries :: "'a list"

text \<open>The answer of \<open>K.image_data_format()\<close>, a parameter of the script.\<close>

datatype data_format = channels_first | channels_last

definition input_shape :: "data_format \<Rightarrow> nat list" where
  "input_shape fmt =
     (if fmt = channels_first then [3, img_width, img_height]
      else [img_width, img_height, 3])"

definition reshape :: "'a tensor \<Rightarrow> nat list \<Rightarrow> error + 'a tensor" where
  "reshape x s =
     (if prod_list s = length (entries x) then Inr \<lparr>shape = s, entries = entries x\<rparr>
      else Inl ValueError)"

definition reshape_images :: "data_format \<Rightarrow> 'a tensor \<Rightarrow> error + 'a tensor" where
  "reshape_images fmt x =
     (case shape x of
        [] \<Rightarrow> Inl IndexError
      | n # _ \<Rightarrow> reshape x (n # input_shape fmt))"

definition astype_float32 :: "int tensor \<Rightarrow> real tensor" where
  "astype_float32 x = \<lparr>shape = shape x, entries = map real_of_int (entries x)\<rparr>"

definition divide_by :: "real tensor \<Rightarrow> real \<Rightarrow> real tensor" where
  "divide_by x c = \<lparr>shape = shape x, entries = map (\<lambda>v. v / c) (entries x)\<rparr>"

text \<open>The three steps the script applies to \<open>input_train\<close> and to \<open>input_test\<close>.\<close>

definition preprocess :: "data_format \<Rightarrow> int tensor \<Rightarrow> error + real tensor" where
  "preprocess fmt raw =
     (case reshape_images fmt raw of
        Inl e \<Rightarrow> Inl e
      | Inr x \<Rightarrow> Inr (divide_by (astype_float32 x) 255))"

definition preprocess_inputs ::
  "data_format \<Rightarrow> int tensor \<Rightarrow> int tensor \<Rightarrow> error + real tensor \<times> real tensor" where
  "preprocess_inputs fmt raw_train raw_test =
     (case preprocess fmt raw_train of
        Inl e \<Rightarrow> Inl e
      | Inr input_train \<Rightarrow>
          (case preprocess fmt raw_test of
             Inl e \<Rightarrow> Inl e
           | Inr input_test \<Rightarrow> Inr (input_train, input_test)))"

text \<open>
  What the data set provides: a batch of images, \<open>shape[0]\<close> of them with
  \<open>3 * img_width * img_height\<close> entries each, every entry a byte value.
\<close>

definition image_batch :: "'a tensor \<Rightarrow> bool" where
  "image_batch x =
     (case shape x of
        [] \<Rightarrow> False
      | n # _ \<Rightarrow> length (entries x) = n * (3 * img_width * img_height))"

definition pixel_range :: "int tensor \<Rightarrow> bool" where
  "pixel_range x = list_all (\<lambda>p. 0 \<le> p \<and> p \<le> 255) (entries x)"

definition unit_range :: "real tensor \<Rightarrow> bool" where
  "unit_range x = list_all (\<lambda>v. 0 \<le> v \<and> v \<le> 1) (entries x)"

text \<open>One image with every entry \<open>p\<close>, as example data.\<close>

definition sample_batch :: "int \<Rightarrow> int tensor" where
  "sample_batch p = \<lparr>shape = [1, 32, 32, 3], entries = replicate 3072 p\<rparr>"

subsection \<open>Backend operations\<close>

text \<open>
  Modelled from the spec: the bodies of \<open>K.relu\<close>, \<open>K.sigmoid\<close> and \<open>K.maximum\<close>
  belong to the Keras backend and are not in the repository. The specification gives
  them as \<open>relu(x) = max(x, 0)\<close>, \<open>sigmoid(x) = 1 / (1 + e^{-x})\<close> and the maximum of
  two numbers.
\<close>

definition relu :: "real \<Rightarrow> real" where
  "relu x = max x 0"

definition sigmoid :: "real \<Rightarrow> real" where
  "sigmoid x = 1 / (1 + exp (- x))"

definition maximum :: "real \<Rightarrow> real \<Rightarrow> real" where
  "maximum a b = max a b"

subsection \<open>The activation (lines 52 to 54)\<close>

definition t :: real where
  "t = - 1.0"

definition ftswish :: "real \<Rightarrow> real" where
  "ftswish x = maximum t (relu x * sigmoid x + t)"

text \<open>
  The formula of the cited paper as the specification words it, without the \<open>relu\<close>
  gate: the floored Swish \<open>max(t, x * sigmoid(x) + t)\<close>. It is compared with
  \<open>ftswish\<close> below.
\<close>

definition ftswish_published :: "real \<Rightarrow> real" where
  "ftswish_published x = maximum t (x * sigmoid x + t)"

subsection \<open>The output layer (line 67)\<close>

text \<open>
  Modelled from the spec: the \<open>softmax\<close> activation that line 67 selects by name is
  a Keras built-in and its body is not in the repository. The specification calls it
  the normalisation that turns a vector of real scores into class probabilities; it is
  given here by its defining formula, each score's exponential divided by the sum of
  the exponentials of the row.
\<close>

definition softmax :: "real list \<Rightarrow> real list" where
  "softmax xs = map (\<lambda>x. exp x / sum_list (map exp xs)) xs"

text \<open>
  A \<open>Dense\<close> layer holds a kernel and a bias and computes
  \<open>activation (dot (input, kernel) + bias)\<close>. The kernel is kept here as one weight
  vector per unit. The output layer is the dense layer with \<open>no_classes\<close> units and
  the softmax activation, applied to every row of the batch that reaches it.
\<close>

record dense_layer =
  kernel :: "real list list"
  bias :: "real list"

definition dot :: "real list \<Rightarrow> real list \<Rightarrow> real" where
  "dot xs ws = sum_list (map2 (*) xs ws)"

definition dense_linear :: "dense_layer \<Rightarrow> real list \<Rightarrow> real list" where
  "dense_linear l xs = map2 (\<lambda>ws b. dot xs ws + b) (kernel l) (bias l)"

definition output_layer :: "dense_layer \<Rightarrow> real list list \<Rightarrow> real list list" where
  "output_layer l batch = map (\<lambda>xs. softmax (dense_linear l xs)) batch"

definition has_units :: "dense_layer \<Rightarrow> nat \<Rightarrow> bool" where
  "has_units l n = (length (kernel l) = n \<and> length (bias l) = n)"

text \<open>A layer of ten units over two features, as example data.\<close>

definition sample_layer :: dense_layer where
  "sample_layer = \<lparr>kernel = replicate 10 [1, 0], bias = replicate 10 0\<rparr>"

section \<open>Basic facts about the backend operations\<close>

lemma sigmoid_pos: "0 < sigmoid x"
  by (simp add: sigmoid_def add_pos_pos)

lemma sigmoid_less_one: "sigmoid x < 1"
  by (simp add: sigmoid_def add_pos_pos)

lemma sigmoid_zero: "sigmoid 0 = 1 / 2"
  by (simp add: sigmoid_def)

lemma sigmoid_mono: "x \<le> y \<Longrightarrow> sigmoid x \<le> sigmoid y"
  by (simp add: sigmoid_def frac_le add_pos_pos)

lemma relu_nonneg: "0 \<le> relu x"
  by (simp add: relu_def)

lemma relu_of_nonpos: "x \<le> 0 \<Longrightarrow> relu x = 0"
  by (simp add: relu_def)

lemma relu_of_pos: "0 < x \<Longrightarrow> relu x = x"
  by (simp add: relu_def)

lemma ftswish_of_nonpos: "x \<le> 0 \<Longrightarrow> ftswish x = t"
  by (simp add: ftswish_def maximum_def relu_of_nonpos)

lemma ftswish_of_pos: "0 < x \<Longrightarrow> ftswish x = x * sigmoid x + t"
proof -
  assume "0 < x"
  then have "0 \<le> x * sigmoid x"
    using sigmoid_pos [of x] by simp
  with \<open>0 < x\<close> show ?thesis
    by (simp add: ftswish_def maximum_def relu_of_pos)
qed

section \<open>The threshold floor\<close>

text \<open>
  C1. For every real input \<open>x\<close>, the activation
  \<open>ftswish x = max t (relu x * sigmoid x + t)\<close> with \<open>t = -1.0\<close> returns a value
  greater than or equal to \<open>t\<close>.
\<close>

theorem ftswish_floor: "t = - 1 \<and> t \<le> ftswish x"
  by (simp add: ftswish_def maximum_def t_def)

text \<open>
  C2. For every real \<open>x \<le> 0\<close>, zero included, \<open>relu x\<close> is \<open>0\<close>, the value before the
  clamp is \<open>t\<close>, and \<open>ftswish x\<close> is exactly \<open>t\<close>.
\<close>

theorem ftswish_flat_nonpos:
  "x \<le> 0 \<Longrightarrow> relu x = 0 \<and> relu x * sigmoid x + t = t \<and> ftswish x = t"
  by (simp add: ftswish_of_nonpos relu_of_nonpos)

theorem ftswish_flat_nonpos_witness:
  "(0::real) \<le> 0 \<and> relu 0 = 0 \<and> relu 0 * sigmoid 0 + t = t \<and> ftswish 0 = t"
  using ftswish_flat_nonpos [of 0] by simp

text \<open>
  C3. For every real \<open>x > 0\<close>, the value before the clamp, \<open>x * sigmoid x + t\<close>, is at
  least \<open>t\<close> because \<open>x * sigmoid x\<close> is non-negative, so the outer maximum changes
  nothing and \<open>ftswish x\<close> is the Swish activation \<open>x * sigmoid x\<close> shifted by \<open>t\<close>.
\<close>

theorem ftswish_swish_pos:
  "0 < x \<Longrightarrow>
     0 \<le> x * sigmoid x \<and> t \<le> x * sigmoid x + t \<and>
     relu x * sigmoid x + t = x * sigmoid x + t \<and>
     ftswish x = x * sigmoid x + t"
proof -
  assume pos: "0 < x"
  then have "0 \<le> x * sigmoid x"
    using sigmoid_pos [of x] by simp
  with pos show ?thesis
    by (simp add: ftswish_of_pos relu_of_pos)
qed

theorem ftswish_swish_pos_witness:
  "(0::real) < 1 \<and> t \<le> 1 * sigmoid 1 + t \<and> ftswish 1 = 1 * sigmoid 1 + t"
  using ftswish_swish_pos [of 1] by simp

section \<open>The gate is redundant\<close>

text \<open>
  C5. For every real \<open>x\<close>, the source's formula \<open>max t (relu x * sigmoid x + t)\<close> equals
  the published formula without the gate, \<open>max t (x * sigmoid x + t)\<close>: for \<open>x < 0\<close>
  the product \<open>x * sigmoid x\<close> is negative and the maximum with \<open>t\<close> already gives \<open>t\<close>.
\<close>

theorem ftswish_gate_redundant:
  "ftswish x = ftswish_published x \<and>
   maximum t (relu x * sigmoid x + t) = maximum t (x * sigmoid x + t)"
proof (cases "0 \<le> x")
  case True
  then have "relu x = x"
    by (simp add: relu_def)
  then show ?thesis
    by (simp add: ftswish_def ftswish_published_def)
next
  case False
  then have neg: "x < 0"
    by simp
  then have "x * sigmoid x < 0"
    using sigmoid_pos [of x] by (simp add: mult_neg_pos)
  with neg show ?thesis
    by (simp add: ftswish_def ftswish_published_def maximum_def relu_def)
qed

section \<open>The gradient\<close>

lemma sigmoid_deriv: "(sigmoid has_real_derivative sigmoid x * (1 - sigmoid x)) (at x)"
proof -
  have pos: "0 < 1 + exp (- x)"
    by (simp add: add_pos_pos)
  have "((\<lambda>y. 1 / (1 + exp (- y))) has_real_derivative
           sigmoid x * (1 - sigmoid x)) (at x)"
    using pos
    by (auto intro!: derivative_eq_intros simp: sigmoid_def field_simps power2_eq_square)
  then show ?thesis
    by (simp add: sigmoid_def [abs_def])
qed

lemma swish_deriv:
  "((\<lambda>y. y * sigmoid y + t) has_real_derivative
      sigmoid x + x * sigmoid x * (1 - sigmoid x)) (at x)"
  by (auto intro!: derivative_eq_intros sigmoid_deriv simp: algebra_simps)

lemma ftswish_deriv_pos:
  assumes "0 < x"
  shows "(ftswish has_real_derivative sigmoid x + x * sigmoid x * (1 - sigmoid x)) (at x)"
proof (rule has_field_derivative_transform_within_open [OF swish_deriv])
  show "open {0::real<..}" by simp
  show "x \<in> {0<..}" using assms by simp
  show "\<And>y. y \<in> {0<..} \<Longrightarrow> y * sigmoid y + t = ftswish y"
    by (simp add: ftswish_of_pos)
qed

lemma ftswish_deriv_neg:
  assumes "x < 0"
  shows "(ftswish has_real_derivative 0) (at x)"
proof (rule has_field_derivative_transform_within_open [where f = "\<lambda>y. t"])
  show "((\<lambda>y. t) has_real_derivative 0) (at x)" by simp
  show "open {..<0::real}" by simp
  show "x \<in> {..<0}" using assms by simp
  show "\<And>y. y \<in> {..<0} \<Longrightarrow> t = ftswish y"
    by (simp add: ftswish_of_nonpos)
qed

lemma ftswish_deriv_left:
  assumes "x \<le> 0"
  shows "(ftswish has_real_derivative 0) (at x within {..0})"
proof (rule has_field_derivative_transform_within [where f = "\<lambda>y. t" and d = 1])
  show "((\<lambda>y. t) has_real_derivative 0) (at x within {..0})" by simp
  show "(0::real) < 1" by simp
  show "x \<in> {..0}" using assms by simp
  show "\<And>y. y \<in> {..0} \<Longrightarrow> dist y x < 1 \<Longrightarrow> t = ftswish y"
    by (simp add: ftswish_of_nonpos)
qed

lemma sigmoid_cont: "isCont sigmoid x"
  using sigmoid_deriv by (rule DERIV_isCont)

lemma ftswish_cont: "isCont ftswish x"
  unfolding ftswish_def [abs_def] maximum_def relu_def [abs_def]
  by (intro continuous_intros sigmoid_cont)

lemma swish_deriv_limit:
  "((\<lambda>x. sigmoid x + x * sigmoid x * (1 - sigmoid x)) \<longlongrightarrow> 1 / 2) (at_right 0)"
proof -
  have "isCont (\<lambda>x. sigmoid x + x * sigmoid x * (1 - sigmoid x)) 0"
    by (intro continuous_intros sigmoid_cont)
  then have "((\<lambda>x. sigmoid x + x * sigmoid x * (1 - sigmoid x)) \<longlongrightarrow> 1 / 2) (at 0)"
    by (simp add: isCont_def sigmoid_zero)
  then show ?thesis
    by (simp add: filterlim_at_split)
qed

text \<open>At \<open>0\<close> itself the two one-sided slopes differ, so no derivative exists there.\<close>

lemma ftswish_not_diff_0: "\<not> (\<exists>D. (ftswish has_real_derivative D) (at 0))"
proof
  assume "\<exists>D. (ftswish has_real_derivative D) (at 0)"
  then obtain D where D: "(ftswish has_real_derivative D) (at 0)" ..
  then have q: "((\<lambda>y. (ftswish y - ftswish 0) / (y - 0)) \<longlongrightarrow> D) (at 0)"
    by (simp only: has_field_derivative_iff)
  then have l: "((\<lambda>y. (ftswish y - ftswish 0) / (y - 0)) \<longlongrightarrow> D) (at_left 0)"
    and r: "((\<lambda>y. (ftswish y - ftswish 0) / (y - 0)) \<longlongrightarrow> D) (at_right 0)"
    by (simp_all only: filterlim_at_split)
  have "eventually (\<lambda>y. (ftswish y - ftswish 0) / (y - 0) = 0) (at_left 0)"
    unfolding eventually_at_filter
    by (rule always_eventually) (simp add: ftswish_of_nonpos)
  then have "((\<lambda>y. (ftswish y - ftswish 0) / (y - 0)) \<longlongrightarrow> 0) (at_left 0)"
    by (rule tendsto_eventually)
  with l have D0: "D = 0"
    by (intro tendsto_unique [OF _ l]) simp_all
  have "eventually (\<lambda>y. sigmoid y = (ftswish y - ftswish 0) / (y - 0)) (at_right 0)"
    unfolding eventually_at_filter
    by (rule always_eventually) (simp add: ftswish_of_nonpos ftswish_of_pos)
  moreover have "(sigmoid \<longlongrightarrow> 1 / 2) (at_right 0)"
    using sigmoid_cont [of 0] by (simp add: isCont_def sigmoid_zero filterlim_at_split)
  ultimately have "((\<lambda>y. (ftswish y - ftswish 0) / (y - 0)) \<longlongrightarrow> 1 / 2) (at_right 0)"
    by (rule Lim_transform_eventually [rotated])
  with r have "D = 1 / 2"
    by (intro tendsto_unique [OF _ r]) simp_all
  with D0 show False by simp
qed

text \<open>
  C4. The derivative of \<open>ftswish\<close>: at every real \<open>x > 0\<close> it is
  \<open>sigmoid x + x * sigmoid x * (1 - sigmoid x)\<close>; at every real \<open>x < 0\<close> it is \<open>0\<close>; and
  the point \<open>0\<close> counts with the non-positive branch: on the half-line of the
  non-positive reals the derivative is \<open>0\<close> at every \<open>x \<le> 0\<close>, zero included.
\<close>

theorem ftswish_derivative:
  "(0 < x \<longrightarrow>
      (ftswish has_real_derivative sigmoid x + x * sigmoid x * (1 - sigmoid x)) (at x)) \<and>
   (x < 0 \<longrightarrow> (ftswish has_real_derivative 0) (at x)) \<and>
   (x \<le> 0 \<longrightarrow> (ftswish has_real_derivative 0) (at x within {..0}))"
  by (simp add: ftswish_deriv_pos ftswish_deriv_neg ftswish_deriv_left)

theorem ftswish_derivative_witness:
  "(ftswish has_real_derivative sigmoid 5 + 5 * sigmoid 5 * (1 - sigmoid 5)) (at 5) \<and>
   (ftswish has_real_derivative 0) (at (- 5)) \<and>
   (ftswish has_real_derivative 0) (at 0 within {..0})"
  using ftswish_derivative [of 5] ftswish_derivative [of "- 5"] ftswish_derivative [of 0]
  by simp

text \<open>
  C6. \<open>ftswish\<close> is continuous at \<open>0\<close>, where its value \<open>t\<close> is the limit from the left
  and from the right, and its derivative jumps there: the derivative is exactly \<open>0\<close> at
  every \<open>x < 0\<close>, while the derivative on the positive side tends to
  \<open>sigmoid 0 = 0.5\<close> as \<open>x\<close> tends to \<open>0\<close> from the right.
\<close>

theorem ftswish_kink_at_zero:
  "isCont ftswish 0 \<and> ftswish 0 = t \<and>
   (ftswish \<longlongrightarrow> t) (at_left 0) \<and> (ftswish \<longlongrightarrow> t) (at_right 0) \<and>
   (\<forall>x<0. (ftswish has_real_derivative 0) (at x)) \<and>
   (\<forall>x>0. (ftswish has_real_derivative
              sigmoid x + x * sigmoid x * (1 - sigmoid x)) (at x)) \<and>
   ((\<lambda>x. sigmoid x + x * sigmoid x * (1 - sigmoid x)) \<longlongrightarrow> sigmoid 0) (at_right 0) \<and>
   sigmoid 0 = 0.5 \<and>
   \<not> (\<exists>D. (ftswish has_real_derivative D) (at 0))"
proof -
  have c: "isCont ftswish 0"
    by (rule ftswish_cont)
  have v: "ftswish 0 = t"
    by (simp add: ftswish_of_nonpos)
  from c v have "(ftswish \<longlongrightarrow> t) (at 0)"
    by (simp add: isCont_def)
  then have lr: "(ftswish \<longlongrightarrow> t) (at_left 0) \<and> (ftswish \<longlongrightarrow> t) (at_right 0)"
    by (simp only: filterlim_at_split)
  have lim: "((\<lambda>x. sigmoid x + x * sigmoid x * (1 - sigmoid x)) \<longlongrightarrow> sigmoid 0) (at_right 0)"
    using swish_deriv_limit by (simp add: sigmoid_zero)
  show ?thesis
    using c v lr lim ftswish_not_diff_0
    by (simp add: ftswish_deriv_neg ftswish_deriv_pos sigmoid_zero)
qed

theorem ftswish_kink_at_zero_witness:
  "(ftswish has_real_derivative 0) (at (- 1)) \<and>
   (ftswish has_real_derivative sigmoid 1 + 1 * sigmoid 1 * (1 - sigmoid 1)) (at 1)"
proof -
  have "\<forall>x<0. (ftswish has_real_derivative 0) (at x)"
    and "\<forall>x>0. (ftswish has_real_derivative
              sigmoid x + x * sigmoid x * (1 - sigmoid x)) (at x)"
    using ftswish_kink_at_zero by blast+
  from this(1) [rule_format, of "- 1"] this(2) [rule_format, of 1] show ?thesis
    by simp
qed

section \<open>Saturation for large inputs\<close>

lemma exp_50_lower: "(2::real) ^ 50 \<le> exp 50"
proof -
  have "(2::real) \<le> exp 1"
    using exp_ge_add_one_self [of 1] by simp
  then have "(2::real) ^ 50 \<le> exp 1 ^ 50"
    by (intro power_mono) simp_all
  also have "exp (1::real) ^ 50 = exp 50"
    by (simp add: exp_of_nat_mult [symmetric])
  finally show ?thesis .
qed

text \<open>
  C7. At the large input \<open>50\<close> the output is \<open>50 + t\<close> within \<open>1e-4\<close>: the absolute
  difference is \<open>50 / (1 + exp 50)\<close>, which is at most \<open>1e-4\<close>.
\<close>

theorem ftswish_large_input:
  "\<bar>ftswish 50 - (50 + t)\<bar> = 50 / (1 + exp 50) \<and> \<bar>ftswish 50 - (50 + t)\<bar> \<le> 1 / 10 ^ 4"
proof -
  have e: "exp (- 50 :: real) = 1 / exp 50"
    by (simp add: exp_minus inverse_eq_divide)
  have pos: "0 < exp (50::real)"
    by simp
  have "ftswish 50 - (50 + t) = 50 * sigmoid 50 - 50"
    by (simp add: ftswish_of_pos)
  also have "\<dots> = - (50 / (1 + exp 50))"
  proof -
    have ne: "1 + exp (50::real) \<noteq> 0"
      using pos by linarith
    have "sigmoid 50 = exp 50 / (1 + exp 50)"
      unfolding sigmoid_def e using pos by (simp add: field_simps)
    moreover have "50 * (exp 50 / (1 + exp 50)) - 50 = - (50 / (1 + exp (50::real)))"
      using ne by (simp add: divide_simps) 
    ultimately show ?thesis
      by simp
  qed
  finally have eq: "ftswish 50 - (50 + t) = - (50 / (1 + exp 50))" .
  have "0 \<le> 50 / (1 + exp (50::real))"
    by (simp add: add_nonneg_nonneg)
  with eq have a: "\<bar>ftswish 50 - (50 + t)\<bar> = 50 / (1 + exp 50)"
    by simp
  have "(500000::real) \<le> 2 ^ 50"
    by simp
  with exp_50_lower have "(500000::real) \<le> 1 + exp 50"
    by linarith
  then have "50 / (1 + exp (50::real)) \<le> 1 / 10 ^ 4"
    by (simp add: field_simps)
  with a show ?thesis
    by simp
qed

section \<open>Monotonicity\<close>

lemma swish_strict_mono:
  assumes "0 < x" and "x < y"
  shows "x * sigmoid x < y * sigmoid y"
proof -
  have "x * sigmoid x < y * sigmoid x"
    using assms sigmoid_pos [of x] by simp
  also have "\<dots> \<le> y * sigmoid y"
    using assms sigmoid_mono [of x y] by (simp add: mult_left_mono)
  finally show ?thesis .
qed

text \<open>
  C9. \<open>ftswish\<close> never decreases: \<open>x \<le> y\<close> gives \<open>ftswish x \<le> ftswish y\<close>. It is
  constant at \<open>t\<close> on the non-positive reals and strictly increasing on the positive
  reals, where its derivative \<open>sigmoid x * (1 + x * (1 - sigmoid x))\<close> is positive.
\<close>

theorem ftswish_monotone:
  "(x \<le> y \<longrightarrow> ftswish x \<le> ftswish y) \<and>
   (x \<le> 0 \<longrightarrow> ftswish x = t) \<and>
   (0 < x \<and> x < y \<longrightarrow> ftswish x < ftswish y) \<and>
   (0 < x \<longrightarrow> 0 < sigmoid x * (1 + x * (1 - sigmoid x)) \<and>
      (ftswish has_real_derivative sigmoid x * (1 + x * (1 - sigmoid x))) (at x))"
proof -
  have strict: "ftswish a < ftswish b" if "0 < a" "a < b" for a b
    using that swish_strict_mono [of a b] by (simp add: ftswish_of_pos)
  have mono: "ftswish x \<le> ftswish y" if "x \<le> y"
  proof (cases "x \<le> 0")
    case True
    then show ?thesis
      by (simp add: ftswish_of_nonpos ftswish_def [of y] maximum_def)
  next
    case False
    with that strict [of x y] show ?thesis
      by (cases "x = y") simp_all
  qed
  have dpos: "0 < sigmoid x * (1 + x * (1 - sigmoid x))" if "0 < x"
  proof -
    have "0 < 1 - sigmoid x"
      using sigmoid_less_one [of x] by simp
    with that have "0 < 1 + x * (1 - sigmoid x)"
      by (simp add: add_pos_pos)
    then show ?thesis
      using sigmoid_pos [of x] by simp
  qed
  have d: "(ftswish has_real_derivative sigmoid x * (1 + x * (1 - sigmoid x))) (at x)"
    if "0 < x"
  proof -
    have "sigmoid x * (1 + x * (1 - sigmoid x)) = sigmoid x + x * sigmoid x * (1 - sigmoid x)"
      by (simp add: algebra_simps)
    then show ?thesis
      using ftswish_deriv_pos [OF that] by simp
  qed
  show ?thesis
    using mono strict dpos d by (simp add: ftswish_of_nonpos)
qed

theorem ftswish_monotone_witness:
  "ftswish (- 2) \<le> ftswish 3 \<and> ftswish (- 2) = t \<and> ftswish 1 < ftswish 2 \<and>
   0 < sigmoid 1 * (1 + 1 * (1 - sigmoid 1))"
  using ftswish_monotone [of "- 2" 3] ftswish_monotone [of 1 2]
  by simp

section \<open>Preprocessing\<close>

lemma input_shape_size: "prod_list (input_shape fmt) = 3 * img_width * img_height"
  by (simp add: input_shape_def)

lemma preprocess_entries:
  "preprocess fmt raw = Inr x \<Longrightarrow> entries x = map (\<lambda>p. real_of_int p / 255) (entries raw)"
  by (auto simp: preprocess_def reshape_images_def reshape_def divide_by_def astype_float32_def
      split: list.splits if_splits)

lemma preprocess_unit_range:
  assumes "preprocess fmt raw = Inr x" and "pixel_range raw"
  shows "unit_range x"
  using assms(2) unfolding preprocess_entries [OF assms(1)] unit_range_def pixel_range_def
  by (induction "entries raw") (auto simp: list_all_iff)

lemma preprocess_returns:
  assumes "image_batch raw"
  shows "\<exists>x. preprocess fmt raw = Inr x \<and> shape x = hd (shape raw) # input_shape fmt"
proof -
  from assms obtain n ds where s: "shape raw = n # ds"
    and len: "length (entries raw) = n * (3 * img_width * img_height)"
    by (auto simp: image_batch_def split: list.splits)
  from len have "prod_list (n # input_shape fmt) = length (entries raw)"
    by (simp add: input_shape_size)
  with s show ?thesis
    by (simp add: preprocess_def reshape_images_def reshape_def divide_by_def astype_float32_def)
qed

text \<open>
  C10. After preprocessing every pixel value fed to the network lies in \<open>[0, 1]\<close>:
  when the raw training and test images have integer entries in \<open>[0, 255]\<close>, the
  conversion to float and the division by \<open>255\<close> succeed and give \<open>input_train\<close> and
  \<open>input_test\<close> whose entries \<open>v\<close> all satisfy \<open>0 \<le> v \<le> 1\<close>.
\<close>

theorem preprocess_inputs_unit_range:
  assumes "image_batch raw_train" and "image_batch raw_test"
    and "pixel_range raw_train" and "pixel_range raw_test"
  shows "\<exists>input_train input_test.
           preprocess_inputs fmt raw_train raw_test = Inr (input_train, input_test) \<and>
           unit_range input_train \<and> unit_range input_test \<and>
           list_all (\<lambda>v. 0 \<le> v \<and> v \<le> 1) (entries input_train @ entries input_test)"
proof -
  from preprocess_returns [OF assms(1)] obtain a where a: "preprocess fmt raw_train = Inr a"
    by blast
  from preprocess_returns [OF assms(2)] obtain b where b: "preprocess fmt raw_test = Inr b"
    by blast
  have "unit_range a" "unit_range b"
    using a b assms(3,4) by (simp_all add: preprocess_unit_range)
  with a b show ?thesis
    by (simp add: preprocess_inputs_def unit_range_def)
qed

theorem preprocess_inputs_unit_range_witness:
  "image_batch (sample_batch 255) \<and> image_batch (sample_batch 0) \<and>
   pixel_range (sample_batch 255) \<and> pixel_range (sample_batch 0) \<and>
   preprocess channels_last (sample_batch 255) =
     Inr \<lparr>shape = [1, 32, 32, 3], entries = replicate 3072 1\<rparr> \<and>
   preprocess channels_last (sample_batch 0) =
     Inr \<lparr>shape = [1, 32, 32, 3], entries = replicate 3072 0\<rparr> \<and>
   (\<exists>input_train input_test.
      preprocess_inputs channels_last (sample_batch 255) (sample_batch 0) =
        Inr (input_train, input_test) \<and>
      unit_range input_train \<and> unit_range input_test \<and>
      list_all (\<lambda>v. 0 \<le> v \<and> v \<le> 1) (entries input_train @ entries input_test))"
proof -
  have b: "image_batch (sample_batch 255)" "image_batch (sample_batch 0)"
    by (simp_all add: image_batch_def sample_batch_def img_width_def img_height_def)
  have p: "pixel_range (sample_batch 255)" "pixel_range (sample_batch 0)"
    by (simp_all add: pixel_range_def sample_batch_def list_all_iff)
  have v: "preprocess channels_last (sample_batch 255) =
             Inr \<lparr>shape = [1, 32, 32, 3], entries = replicate 3072 1\<rparr>"
    "preprocess channels_last (sample_batch 0) =
             Inr \<lparr>shape = [1, 32, 32, 3], entries = replicate 3072 0\<rparr>"
    by (simp_all add: preprocess_def reshape_images_def reshape_def divide_by_def
        astype_float32_def sample_batch_def input_shape_def img_width_def img_height_def)
  from b p v preprocess_inputs_unit_range [OF b p, of channels_last] show ?thesis
    by blast
qed

section \<open>The softmax output\<close>

lemma sum_exp_pos: "xs \<noteq> [] \<Longrightarrow> 0 < sum_list (map exp (xs :: real list))"
proof (induction xs)
  case Nil
  then show ?case by simp
next
  case (Cons x xs)
  have "0 \<le> sum_list (map exp xs)"
    by (rule sum_list_nonneg) auto
  then show ?case
    by (simp add: add_pos_nonneg)
qed

lemma exp_le_sum_exp: "x \<in> set xs \<Longrightarrow> exp x \<le> sum_list (map exp (xs :: real list))"
proof (induction xs)
  case Nil
  then show ?case by simp
next
  case (Cons y ys)
  have nn: "0 \<le> sum_list (map exp ys)"
    by (rule sum_list_nonneg) auto
  show ?case
  proof (cases "x = y")
    case True
    with nn show ?thesis by simp
  next
    case False
    with Cons have "exp x \<le> sum_list (map exp ys)"
      by simp
    then show ?thesis
      by (simp add: add_increasing)
  qed
qed

lemma sum_list_divide: "sum_list (map (\<lambda>x. f x / c) xs) = sum_list (map f xs) / (c :: real)"
  by (induction xs) (simp_all add: add_divide_distrib)

lemma softmax_length: "length (softmax xs) = length xs"
  by (simp add: softmax_def)

lemma softmax_sum: "xs \<noteq> [] \<Longrightarrow> sum_list (softmax xs) = 1"
  using sum_exp_pos [of xs] by (simp add: softmax_def sum_list_divide)

lemma softmax_range:
  assumes "p \<in> set (softmax xs)"
  shows "0 < p \<and> p \<le> 1"
proof -
  from assms obtain x where x: "x \<in> set xs" and p: "p = exp x / sum_list (map exp xs)"
    by (auto simp: softmax_def)
  from x have ne: "xs \<noteq> []"
    by auto
  have pos: "0 < sum_list (map exp xs)"
    using ne by (rule sum_exp_pos)
  have "exp x \<le> sum_list (map exp xs)"
    using x by (rule exp_le_sum_exp)
  with pos show ?thesis
    by (simp add: p)
qed

lemma dense_linear_length: "has_units l n \<Longrightarrow> length (dense_linear l xs) = n"
  by (simp add: dense_linear_def has_units_def)

text \<open>
  C8. For every input batch the final softmax layer gives one row of \<open>no_classes\<close>
  values per input row; the values of each row are non-negative and at most \<open>1\<close>, and
  they sum to \<open>1\<close>, so also within the tolerance \<open>1e-5\<close>.
\<close>

theorem output_layer_probabilities:
  assumes "has_units l no_classes"
  shows "length (output_layer l batch) = length batch \<and>
         list_all (\<lambda>row. length row = no_classes \<and>
                      list_all (\<lambda>p. 0 \<le> p \<and> p \<le> 1) row \<and>
                      sum_list row = 1 \<and> \<bar>sum_list row - 1\<bar> \<le> 1 / 10 ^ 5)
           (output_layer l batch)"
proof -
  have row: "length (softmax (dense_linear l xs)) = no_classes \<and>
             list_all (\<lambda>p. 0 \<le> p \<and> p \<le> 1) (softmax (dense_linear l xs)) \<and>
             sum_list (softmax (dense_linear l xs)) = 1" for xs
  proof -
    have len: "length (dense_linear l xs) = no_classes"
      using assms by (rule dense_linear_length)
    then have "dense_linear l xs \<noteq> []"
      by (auto simp: no_classes_def)
    then have "sum_list (softmax (dense_linear l xs)) = 1"
      by (rule softmax_sum)
    moreover have "list_all (\<lambda>p. 0 \<le> p \<and> p \<le> 1) (softmax (dense_linear l xs))"
      using softmax_range [of _ "dense_linear l xs"] by (auto simp: list_all_iff less_imp_le)
    ultimately show ?thesis
      using len by (simp add: softmax_length)
  qed
  show ?thesis
    unfolding output_layer_def by (induction batch) (simp_all add: row)
qed

theorem output_layer_probabilities_witness:
  "has_units sample_layer no_classes \<and>
   length (output_layer sample_layer [[2, 3], [0, 1]]) = 2 \<and>
   list_all (\<lambda>row. length row = no_classes \<and>
                list_all (\<lambda>p. 0 \<le> p \<and> p \<le> 1) row \<and>
                sum_list row = 1 \<and> \<bar>sum_list row - 1\<bar> \<le> 1 / 10 ^ 5)
     (output_layer sample_layer [[2, 3], [0, 1]])"
proof -
  have h: "has_units sample_layer no_classes"
    by (simp add: has_units_def sample_layer_def no_classes_def)
  from h output_layer_probabilities [OF h, of "[[2, 3], [0, 1]]"] show ?thesis
    by simp
qed

end
